theory Spec2Isabelle
  imports Complex_Main "HOL-Library.Word" "HOL-Library.Sublist"
begin

section \<open>Strings\<close>

text \<open>
  A JavaScript string is a sequence of UTF-16 code units. The regular expression of
  \<open>filterHallucinations\<close> has no \<open>u\<close> flag, so it works on code units, and
  \<open>String.prototype.trim\<close> removes the code units that ECMAScript calls WhiteSpace
  or LineTerminator from both ends.
\<close>

type_synonym jsstring = "16 word list"

text \<open>A literal of Latin-1 characters as a JavaScript string.\<close>

definition js :: "string \<Rightarrow> jsstring" where
  "js = map of_char"

text \<open>ECMAScript WhiteSpace (TAB, VT, FF, SP, NBSP, ZWNBSP, category Zs) and LineTerminator.\<close>

definition isWhiteSpace :: "16 word \<Rightarrow> bool" where
  "isWhiteSpace c \<longleftrightarrow>
     c = 0x09 \<or> c = 0x0A \<or> c = 0x0B \<or> c = 0x0C \<or> c = 0x0D \<or> c = 0x20 \<or> c = 0xA0 \<or>
     c = 0x1680 \<or> (0x2000 \<le> c \<and> c \<le> 0x200A) \<or> c = 0x2028 \<or> c = 0x2029 \<or>
     c = 0x202F \<or> c = 0x205F \<or> c = 0x3000 \<or> c = 0xFEFF"

definition trim :: "jsstring \<Rightarrow> jsstring" where
  "trim t = rev (dropWhile isWhiteSpace (rev (dropWhile isWhiteSpace t)))"

text \<open>The character class \<open>[^\x00-\x7F]\<close>: a code unit above 0x7F.\<close>

definition nonAscii :: "16 word \<Rightarrow> bool" where
  "nonAscii c \<longleftrightarrow> \<not> c \<le> 0x7F"

text \<open>\<open>text.replace(/[^\x00-\x7F]/g, "").trim()\<close>\<close>

definition filterHallucinations :: "jsstring \<Rightarrow> jsstring" where
  "filterHallucinations t = trim (filter (\<lambda>c. \<not> nonAscii c) t)"

text \<open>The strings of the specification's examples.\<close>

definition helloMarathi :: jsstring where
  "helloMarathi = js ''Hello '' @ [0x906, 0x908, 0x20, 0x915, 0x936, 0x940, 0x20,
                                   0x906, 0x939, 0x947, 0x938]"

definition chalaJevayla :: jsstring where
  "chalaJevayla = js ''chala jevayla '' @ [0x91C, 0x93E, 0x90A, 0x92F, 0x93E]"

section \<open>Data model\<close>

text \<open>\<open>ConnectionStatus\<close> and \<open>TranscriptionEntry\<close> of \<open>types.ts\<close>.\<close>

datatype ConnectionStatus = Disconnected | Connecting | Connected | Error

datatype role = User | Model

record TranscriptionEntry =
  entry_id :: jsstring
  entry_role :: role
  entry_text :: jsstring
  entry_timestamp :: int

type_synonym js_error = string

text \<open>
  Calls into the host environment and the SDK are recorded in a trace, in call order.
  Host objects (playback sources, the script processor, the live session) are named by
  numbers, allocated in order of creation. \<open>SourceStop i r\<close> records the call
  \<open>s.stop()\<close> on source \<open>i\<close> together with the exception it raised, if any.
  An exception that leaves an \<open>async\<close> function is an unhandled rejection.
\<close>

datatype effect =
    SessionClose nat
  | ProcessorDisconnect nat
  | SourceStart nat real
  | SourceStop nat "js_error option"
  | ConsoleError js_error
  | SendMessage "(role \<times> jsstring) list" jsstring
  | UnhandledRejection js_error

text \<open>\<open>transcriptionRef\<close>: the text accumulated for the turn in progress (fields \<open>input\<close>
  and \<open>output\<close> of the source).\<close>

record turn_buffer =
  input_text :: jsstring
  output_text :: jsstring

text \<open>
  The state of the component: the React state variables (\<open>status\<close>, \<open>isThinking\<close>,
  \<open>isSpeaking\<close>, \<open>inputValue\<close>, \<open>transcriptions\<close>), the refs, and the trace.
  A ref to a device context or analyser is modelled by whether it is set. Times are
  seconds on the output context's clock, taken as real numbers.
\<close>

record app_state =
  status :: ConnectionStatus
  isThinking :: bool
  isSpeaking :: bool
  inputValue :: jsstring
  transcriptions :: "TranscriptionEntry list"
  inputContextRef :: bool
  outputContextRef :: bool
  inputAnalyserRef :: bool
  outputAnalyserRef :: bool
  sessionRef :: "nat option"
  scriptProcessorRef :: "nat option"
  nextStartTimeRef :: real
  audioSourcesRef :: "nat list"
  transcriptionRef :: turn_buffer
  trace :: "effect list"
  allocated :: nat

text \<open>
  What the environment answers during one step: the output context's \<open>currentTime\<close>,
  the exception \<open>stop()\<close> raises on a given source (if any), and the successive results
  of \<open>Math.random().toString()\<close> and \<open>Date.now()\<close>, numbered from 0 within the step.
\<close>

record host =
  currentTime :: real
  stopThrows :: "nat \<Rightarrow> js_error option"
  mathRandom :: "nat \<Rightarrow> jsstring"
  dateNow :: "nat \<Rightarrow> int"

text \<open>
  The fields of a \<open>LiveServerMessage\<close> that \<open>onmessage\<close> reads (a message without
  \<open>serverContent\<close> is one with every field absent). \<open>modelTurn\<close> is absent, or present
  with its \<open>parts\<close> absent or a list. A part stands for its \<open>inlineData?.data\<close>:
  \<open>None\<close> when that is undefined or the empty string, and otherwise what
  \<open>decodeAudioData(decode(data), \<dots>)\<close> (module \<open>services/audioUtils\<close>) does on it: the
  exception it raises, or the duration of the buffer it returns. A transcription is an
  object whose \<open>text\<close> may be absent.
\<close>

type_synonym part = "(js_error + real) option"

record message =
  modelTurn :: "part list option option"
  interrupted :: bool
  outputTranscription :: "jsstring option option"
  inputTranscription :: "jsstring option option"
  turnComplete :: bool

text \<open>The state the component starts in, given the transcript the initialiser yields.\<close>

definition initialState :: "TranscriptionEntry list \<Rightarrow> app_state" where
  "initialState saved =
     \<lparr>status = Disconnected, isThinking = False, isSpeaking = False, inputValue = [],
      transcriptions = saved,
      inputContextRef = False, outputContextRef = False,
      inputAnalyserRef = False, outputAnalyserRef = False,
      sessionRef = None, scriptProcessorRef = None,
      nextStartTimeRef = 0, audioSourcesRef = [],
      transcriptionRef = \<lparr>input_text = [], output_text = []\<rparr>,
      trace = [], allocated = 0\<rparr>"

section \<open>Playback sources\<close>

text \<open>\<open>audioSourcesRef\<close> is a JavaScript \<open>Set\<close>: insertion order, no duplicates.\<close>

definition setAdd :: "nat \<Rightarrow> nat list \<Rightarrow> nat list" where
  "setAdd x xs = (if x \<in> set xs then xs else xs @ [x])"

definition setDelete :: "nat \<Rightarrow> nat list \<Rightarrow> nat list" where
  "setDelete x xs = removeAll x xs"

text \<open>
  \<open>audioSourcesRef.current.forEach(s => { try { s.stop(); } catch (e) {} })\<close>:
  \<open>stop\<close> is called on every source in turn; an exception is caught and dropped, and
  the loop goes on to the next source.
\<close>

fun stopEach :: "host \<Rightarrow> nat list \<Rightarrow> effect list" where
  "stopEach h [] = []"
| "stopEach h (x # xs) =
     (case stopThrows h x of
        Some e \<Rightarrow> [SourceStop x (Some e)]
      | None \<Rightarrow> [SourceStop x None]) @ stopEach h xs"

text \<open>The \<open>onended\<close> callback of a source.\<close>

definition onended :: "nat \<Rightarrow> app_state \<Rightarrow> app_state" where
  "onended src s =
     (let rest = setDelete src (audioSourcesRef s);
          s1 = s\<lparr>audioSourcesRef := rest\<rparr>
      in if length rest = 0 then s1\<lparr>isSpeaking := False\<rparr> else s1)"

section \<open>stopSession\<close>

definition stopSession :: "host \<Rightarrow> app_state \<Rightarrow> app_state" where
  "stopSession h s =
     (let s1 = (case sessionRef s of
                  Some sid \<Rightarrow> s\<lparr>trace := trace s @ [SessionClose sid], sessionRef := None\<rparr>
                | None \<Rightarrow> s);
          s2 = (case scriptProcessorRef s1 of
                  Some p \<Rightarrow> s1\<lparr>trace := trace s1 @ [ProcessorDisconnect p],
                                 scriptProcessorRef := None\<rparr>
                | None \<Rightarrow> s1);
          s3 = s2\<lparr>trace := trace s2 @ stopEach h (audioSourcesRef s2)\<rparr>;
          s4 = s3\<lparr>audioSourcesRef := []\<rparr>;
          s5 = s4\<lparr>nextStartTimeRef := 0\<rparr>
      in s5\<lparr>status := Disconnected, isSpeaking := False, isThinking := False\<rparr>)"

section \<open>The callbacks of the live session\<close>

text \<open>
  \<open>onopen\<close>: the status becomes connected and the script processor is created and kept
  in its ref. (What the processor sends per captured frame is outside this model.)
\<close>

definition onopen :: "app_state \<Rightarrow> app_state" where
  "onopen s =
     s\<lparr>status := Connected, scriptProcessorRef := Some (allocated s),
       allocated := allocated s + 1\<rparr>"

text \<open>
  \<open>message.serverContent?.modelTurn?.parts[0]?.inlineData?.data\<close>: an absent
  \<open>modelTurn\<close> ends the chain with undefined; with \<open>modelTurn\<close> present and \<open>parts\<close>
  absent, \<open>parts[0]\<close> raises a TypeError; element 0 of an empty list is undefined.
\<close>

definition base64Audio :: "message \<Rightarrow> js_error + part" where
  "base64Audio m =
     (case modelTurn m of
        None \<Rightarrow> Inr None
      | Some None \<Rightarrow> Inl ''TypeError''
      | Some (Some ps) \<Rightarrow> (case ps of [] \<Rightarrow> Inr None | p # rest \<Rightarrow> Inr p))"

text \<open>
  The audio branch of \<open>onmessage\<close>. The handler is \<open>async\<close> and awaits the decoder;
  messages are taken to be handled one at a time, each to its end. When the decoder
  raises, the exception leaves the handler with the updates made so far (\<open>Inl\<close>).
\<close>

definition audioBranch :: "host \<Rightarrow> part \<Rightarrow> app_state \<Rightarrow> (js_error \<times> app_state) + app_state" where
  "audioBranch h audio s =
     (case audio of
        None \<Rightarrow> Inr s
      | Some decoded \<Rightarrow>
          if \<not> outputContextRef s then Inr s
          else
            let s1 = s\<lparr>isThinking := False, isSpeaking := True\<rparr>;
                s2 = s1\<lparr>nextStartTimeRef := max (nextStartTimeRef s1) (currentTime h)\<rparr>
            in case decoded of
                 Inl e \<Rightarrow> Inl (e, s2)
               | Inr duration \<Rightarrow>
                   let source = allocated s2;
                       s3 = s2\<lparr>allocated := allocated s2 + 1\<rparr>;
                       s4 = s3\<lparr>trace := trace s3 @ [SourceStart source (nextStartTimeRef s3)]\<rparr>;
                       s5 = s4\<lparr>nextStartTimeRef := nextStartTimeRef s4 + duration\<rparr>
                   in Inr (s5\<lparr>audioSourcesRef := setAdd source (audioSourcesRef s5)\<rparr>))"

definition interruptedBranch :: "host \<Rightarrow> message \<Rightarrow> app_state \<Rightarrow> app_state" where
  "interruptedBranch h m s =
     (if interrupted m then
        s\<lparr>trace := trace s @ stopEach h (audioSourcesRef s),
          audioSourcesRef := [], nextStartTimeRef := 0, isSpeaking := False\<rparr>
      else s)"

text \<open>\<open>buffer += fragment.text\<close>: an absent text is appended as the string "undefined".\<close>

definition fragmentText :: "jsstring option \<Rightarrow> jsstring" where
  "fragmentText t = (case t of Some x \<Rightarrow> x | None \<Rightarrow> js ''undefined'')"

definition transcriptBranch :: "message \<Rightarrow> app_state \<Rightarrow> app_state" where
  "transcriptBranch m s =
     (case outputTranscription m of
        Some t \<Rightarrow>
          s\<lparr>transcriptionRef :=
              (transcriptionRef s)\<lparr>output_text := output_text (transcriptionRef s) @ fragmentText t\<rparr>\<rparr>
      | None \<Rightarrow>
          (case inputTranscription m of
             Some t \<Rightarrow>
               s\<lparr>transcriptionRef :=
                   (transcriptionRef s)\<lparr>input_text := input_text (transcriptionRef s) @ fragmentText t\<rparr>,
                 isThinking := True\<rparr>
           | None \<Rightarrow> s))"

text \<open>
  The entries the updater of the turn-complete branch pushes. The first
  \<open>Math.random()\<close> and \<open>Date.now()\<close> of the step go to the first entry pushed.
\<close>

definition flushEntries :: "host \<Rightarrow> jsstring \<Rightarrow> jsstring \<Rightarrow> TranscriptionEntry list" where
  "flushEntries h cleanedIn cleanedOut =
     (let k = (if cleanedIn \<noteq> [] then 1 else 0) in
      (if cleanedIn \<noteq> [] then
         [\<lparr>entry_id = mathRandom h 0, entry_role = User, entry_text = cleanedIn,
           entry_timestamp = dateNow h 0\<rparr>]
       else []) @
      (if cleanedOut \<noteq> [] then
         [\<lparr>entry_id = mathRandom h k, entry_role = Model, entry_text = cleanedOut,
           entry_timestamp = dateNow h k\<rparr>]
       else []))"

definition turnCompleteBranch :: "host \<Rightarrow> message \<Rightarrow> app_state \<Rightarrow> app_state" where
  "turnCompleteBranch h m s =
     (if turnComplete m then
        let cleanedIn = filterHallucinations (input_text (transcriptionRef s));
            cleanedOut = filterHallucinations (output_text (transcriptionRef s));
            s1 = (if cleanedIn \<noteq> [] \<or> cleanedOut \<noteq> [] then
                    s\<lparr>transcriptions := transcriptions s @ flushEntries h cleanedIn cleanedOut\<rparr>
                  else s)
        in s1\<lparr>transcriptionRef := \<lparr>input_text = [], output_text = []\<rparr>, isThinking := False\<rparr>
      else s)"

text \<open>
  The handler: an exception from the first line or from the decoder ends it there, as
  an unhandled rejection, and the branches that follow are not run for that message.
\<close>

definition onmessage :: "host \<Rightarrow> message \<Rightarrow> app_state \<Rightarrow> app_state" where
  "onmessage h m s =
     (case base64Audio m of
        Inl e \<Rightarrow> s\<lparr>trace := trace s @ [UnhandledRejection e]\<rparr>
      | Inr audio \<Rightarrow>
          (case audioBranch h audio s of
             Inl (e, s') \<Rightarrow> s'\<lparr>trace := trace s' @ [UnhandledRejection e]\<rparr>
           | Inr s1 \<Rightarrow> turnCompleteBranch h m (transcriptBranch m (interruptedBranch h m s1))))"


text \<open>Messages for the examples: an empty one, and one per kind of event.\<close>

definition emptyMessage :: message where
  "emptyMessage =
     \<lparr>modelTurn = None, interrupted = False, outputTranscription = None,
      inputTranscription = None, turnComplete = False\<rparr>"

definition inputFragment :: "jsstring \<Rightarrow> message" where
  "inputFragment t = emptyMessage\<lparr>inputTranscription := Some (Some t)\<rparr>"

definition outputFragment :: "jsstring \<Rightarrow> message" where
  "outputFragment t = emptyMessage\<lparr>outputTranscription := Some (Some t)\<rparr>"

definition turnCompleteMessage :: message where
  "turnCompleteMessage = emptyMessage\<lparr>turnComplete := True\<rparr>"




text \<open>\<open>onerror: () => stopSession()\<close> and \<open>onclose: () => stopSession()\<close>\<close>

definition onerror :: "host \<Rightarrow> app_state \<Rightarrow> app_state" where
  "onerror h s = stopSession h s"

definition onclose :: "host \<Rightarrow> app_state \<Rightarrow> app_state" where
  "onclose h s = stopSession h s"

section \<open>startSession\<close>

text \<open>
  The calls of the \<open>try\<close> block that can raise or reject, in order. The environment
  is given as the step that fails, if any, with its exception. A device context is
  constructed only when its ref is not set yet. Each analyser is put in its ref as soon
  as it is created; \<open>ConnectOutput\<close> stands for creating the gain node and the two
  \<open>connect\<close> calls, \<open>LiveConnect\<close> for \<open>ai.live.connect\<close> and the \<open>await\<close> of its
  promise.
\<close>

datatype start_step =
    GetUserMedia | NewClient | NewInputContext | NewOutputContext
  | ResumeInput | ResumeOutput | NewInputAnalyser | NewOutputAnalyser | ConnectOutput
  | LiveConnect

type_synonym start_failure = "(start_step \<times> js_error) option"

definition attempt :: "start_failure \<Rightarrow> start_step \<Rightarrow> app_state \<Rightarrow> (js_error \<times> app_state) + app_state" where
  "attempt f k s =
     (case f of
        Some (k', e) \<Rightarrow> if k' = k then Inl (e, s) else Inr s
      | None \<Rightarrow> Inr s)"

fun runSteps :: "(app_state \<Rightarrow> (js_error \<times> app_state) + app_state) list \<Rightarrow> app_state
                 \<Rightarrow> (js_error \<times> app_state) + app_state" where
  "runSteps [] s = Inr s"
| "runSteps (step # steps) s =
     (case step s of Inl x \<Rightarrow> Inl x | Inr s' \<Rightarrow> runSteps steps s')"

definition newInputContext :: "start_failure \<Rightarrow> app_state \<Rightarrow> (js_error \<times> app_state) + app_state" where
  "newInputContext f s =
     (if inputContextRef s then Inr s
      else case attempt f NewInputContext s of
             Inl x \<Rightarrow> Inl x
           | Inr s' \<Rightarrow> Inr (s'\<lparr>inputContextRef := True\<rparr>))"

definition newOutputContext :: "start_failure \<Rightarrow> app_state \<Rightarrow> (js_error \<times> app_state) + app_state" where
  "newOutputContext f s =
     (if outputContextRef s then Inr s
      else case attempt f NewOutputContext s of
             Inl x \<Rightarrow> Inl x
           | Inr s' \<Rightarrow> Inr (s'\<lparr>outputContextRef := True\<rparr>))"

definition newInputAnalyser :: "start_failure \<Rightarrow> app_state \<Rightarrow> (js_error \<times> app_state) + app_state" where
  "newInputAnalyser f s =
     (case attempt f NewInputAnalyser s of
        Inl x \<Rightarrow> Inl x
      | Inr s' \<Rightarrow> Inr (s'\<lparr>inputAnalyserRef := True\<rparr>))"

definition newOutputAnalyser :: "start_failure \<Rightarrow> app_state \<Rightarrow> (js_error \<times> app_state) + app_state" where
  "newOutputAnalyser f s =
     (case attempt f NewOutputAnalyser s of
        Inl x \<Rightarrow> Inl x
      | Inr s' \<Rightarrow> Inr (s'\<lparr>outputAnalyserRef := True\<rparr>))"

text \<open>
  \<open>sessionRef.current = await sessionPromise\<close>: when the connection is made, \<open>onopen\<close>
  has run and the session is kept in its ref.
\<close>

definition liveConnect :: "start_failure \<Rightarrow> app_state \<Rightarrow> (js_error \<times> app_state) + app_state" where
  "liveConnect f s =
     (case attempt f LiveConnect s of
        Inl x \<Rightarrow> Inl x
      | Inr s' \<Rightarrow>
          let session = allocated s';
              s1 = onopen (s'\<lparr>allocated := allocated s' + 1\<rparr>)
          in Inr (s1\<lparr>sessionRef := Some session\<rparr>))"

definition tryStart :: "start_failure \<Rightarrow> app_state \<Rightarrow> (js_error \<times> app_state) + app_state" where
  "tryStart f s =
     runSteps [attempt f GetUserMedia, attempt f NewClient, newInputContext f,
               newOutputContext f, attempt f ResumeInput, attempt f ResumeOutput,
               newInputAnalyser f, newOutputAnalyser f, attempt f ConnectOutput,
               liveConnect f]
              (s\<lparr>status := Connecting\<rparr>)"

definition startSession :: "start_failure \<Rightarrow> app_state \<Rightarrow> app_state" where
  "startSession f s =
     (case tryStart f s of
        Inl (err, s') \<Rightarrow> s'\<lparr>trace := trace s' @ [ConsoleError err], status := Error\<rparr>
      | Inr s' \<Rightarrow> s')"

section \<open>handleTextEnter\<close>

text \<open>
  What the SDK does during the call: constructing the client or the chat raises (these
  calls stand before the \<open>try\<close>), or \<open>sendMessage\<close> rejects, or it resolves with a
  response whose \<open>text\<close> may be absent.
\<close>

datatype reply_outcome =
    SetupThrows js_error
  | RequestFails js_error
  | Reply "jsstring option"

text \<open>The function up to \<open>await chat.sendMessage\<close>; \<open>history\<close> is the log as rendered.\<close>

definition textEnterBegin :: "host \<Rightarrow> js_error option \<Rightarrow> jsstring \<Rightarrow> app_state \<Rightarrow> app_state" where
  "textEnterBegin h setup text s =
     (let s1 = s\<lparr>transcriptions := transcriptions s @
                   [\<lparr>entry_id = mathRandom h 0, entry_role = User, entry_text = text,
                     entry_timestamp = dateNow h 0\<rparr>]\<rparr>;
          s2 = s1\<lparr>inputValue := [], isThinking := True\<rparr>;
          history = map (\<lambda>t. (entry_role t, entry_text t)) (transcriptions s)
      in case setup of
           Some e \<Rightarrow> s2\<lparr>trace := trace s2 @ [UnhandledRejection e]\<rparr>
         | None \<Rightarrow> s2\<lparr>trace := trace s2 @ [SendMessage history text]\<rparr>)"

text \<open>
  The \<open>try\<close>/\<open>catch\<close>/\<open>finally\<close> once the request has settled; \<open>newId\<close> and \<open>now\<close> are
  the \<open>Math.random().toString()\<close> and \<open>Date.now()\<close> of the model entry.
\<close>

definition textEnterSettle :: "jsstring \<Rightarrow> int \<Rightarrow> js_error + jsstring option \<Rightarrow> app_state \<Rightarrow> app_state" where
  "textEnterSettle newId now result s =
     (let s1 = (case result of
                  Inr response \<Rightarrow>
                    s\<lparr>transcriptions := transcriptions s @
                        [\<lparr>entry_id = newId, entry_role = Model,
                          entry_text = filterHallucinations
                            (case response of Some t \<Rightarrow> if t \<noteq> [] then t else [] | None \<Rightarrow> []),
                          entry_timestamp = now\<rparr>]\<rparr>
                | Inl e \<Rightarrow> s\<lparr>trace := trace s @ [ConsoleError e]\<rparr>)
      in s1\<lparr>isThinking := False\<rparr>)"

definition handleTextEnter :: "host \<Rightarrow> reply_outcome \<Rightarrow> jsstring \<Rightarrow> app_state \<Rightarrow> app_state" where
  "handleTextEnter h outcome text s =
     (if trim text = [] then s
      else case outcome of
             SetupThrows e \<Rightarrow> textEnterBegin h (Some e) text s
           | RequestFails e \<Rightarrow>
               textEnterSettle (mathRandom h 1) (dateNow h 1) (Inl e) (textEnterBegin h None text s)
           | Reply response \<Rightarrow>
               textEnterSettle (mathRandom h 1) (dateNow h 1) (Inr response)
                 (textEnterBegin h None text s))"

section \<open>Runs of the component\<close>

text \<open>
  Everything that can happen to the component, one step each. A text entry is either
  taken whole, or as its two halves with other steps between them while the request is
  in flight.
\<close>

datatype operation =
    StartSession start_failure
  | StopSession
  | HandleTextEnter jsstring reply_outcome
  | TextEnterBegin jsstring "js_error option"
  | TextEnterSettle "js_error + jsstring option"
  | OnMessage message
  | OnError
  | OnClose
  | OnEnded nat

fun perform :: "host \<Rightarrow> operation \<Rightarrow> app_state \<Rightarrow> app_state" where
  "perform h (StartSession f) s = startSession f s"
| "perform h StopSession s = stopSession h s"
| "perform h (HandleTextEnter text outcome) s = handleTextEnter h outcome text s"
| "perform h (TextEnterBegin text setup) s =
     (if trim text = [] then s else textEnterBegin h setup text s)"
| "perform h (TextEnterSettle result) s = textEnterSettle (mathRandom h 0) (dateNow h 0) result s"
| "perform h (OnMessage m) s = onmessage h m s"
| "perform h OnError s = onerror h s"
| "perform h OnClose s = onclose h s"
| "perform h (OnEnded src) s = onended src s"

fun run :: "(host \<times> operation) list \<Rightarrow> app_state \<Rightarrow> app_state" where
  "run [] s = s"
| "run ((h, op) # ops) s = run ops (perform h op s)"

section \<open>Playing a sequence of chunks\<close>

text \<open>A message that carries one decoded chunk of the given duration and nothing else.\<close>

definition audioMessage :: "real \<Rightarrow> message" where
  "audioMessage d =
     \<lparr>modelTurn = Some (Some [Some (Inr d)]), interrupted = False, outputTranscription = None,
      inputTranscription = None, turnComplete = False\<rparr>"

text \<open>
  Chunks arrive as pairs of the device clock at arrival and the chunk's duration, and
  are handled in arrival order.
\<close>

fun playChunks :: "host \<Rightarrow> (real \<times> real) list \<Rightarrow> app_state \<Rightarrow> app_state" where
  "playChunks h [] s = s"
| "playChunks h ((clock, d) # cs) s =
     playChunks h cs (onmessage (h\<lparr>currentTime := clock\<rparr>) (audioMessage d) s)"

text \<open>The start times given to \<open>source.start\<close>, in call order.\<close>

fun startTimes :: "effect list \<Rightarrow> real list" where
  "startTimes [] = []"
| "startTimes (SourceStart i t # es) = t # startTimes es"
| "startTimes (e # es) = startTimes es"

text \<open>The start times of the chunks played from state \<open>s\<close>.\<close>

definition scheduled :: "host \<Rightarrow> (real \<times> real) list \<Rightarrow> app_state \<Rightarrow> real list" where
  "scheduled h cs s =
     drop (length (startTimes (trace s))) (startTimes (trace (playChunks h cs s)))"

text \<open>A host for the examples.\<close>

definition host0 :: host where
  "host0 = \<lparr>currentTime = 0, stopThrows = (\<lambda>i. None),
            mathRandom = (\<lambda>k. if k = 0 then js ''0.1'' else js ''0.2''),
            dateNow = (\<lambda>k. 1000 + int k)\<rparr>"

text \<open>
  The initialiser of \<open>transcriptions\<close>: \<open>saved\<close> is the stored item, when there is one
  and it is not the empty string, as what \<open>JSON.parse\<close> makes of it (an exception or a
  log); with nothing stored the log starts with the greeting.
\<close>

definition initEntry :: "int \<Rightarrow> TranscriptionEntry" where
  "initEntry now =
     \<lparr>entry_id = js ''init'', entry_role = Model,
      entry_text = js ''Arre! Good morning! Aata kay plan aahe for today? Coffee bhetli ka tula?'',
      entry_timestamp = now - 3000\<rparr>"

definition initialTranscriptions :: "(js_error + TranscriptionEntry list) option \<Rightarrow> int
                                     \<Rightarrow> TranscriptionEntry list" where
  "initialTranscriptions saved now =
     (case saved of
        Some (Inr parsed) \<Rightarrow> parsed
      | Some (Inl e) \<Rightarrow> []
      | None \<Rightarrow> [initEntry now])"

text \<open>States and hosts for the examples.\<close>

definition ready :: app_state where
  "ready = startSession None (initialState [])"

definition playing :: app_state where
  "playing = playChunks host0 [(0, 1)] ready"




definition hostStopFails :: host where
  "hostStopFails = host0\<lparr>stopThrows := (\<lambda>i. Some ''InvalidStateError'')\<rparr>"

definition exampleRun :: "(host \<times> operation) list" where
  "exampleRun =
     [(host0, HandleTextEnter (js ''hi'') (RequestFails ''network'')),
      (host0, StartSession None),
      (host0, OnMessage (inputFragment (js ''mala bhuk lagli'')))]"

definition exampleRunMore :: "(host \<times> operation) list" where
  "exampleRunMore =
     [(host0, OnMessage (outputFragment chalaJevayla)),
      (host0, OnMessage turnCompleteMessage),
      (host0, OnClose)]"

section \<open>Properties of the filter\<close>

lemma trim_decompose:
  "\<exists>l r. t = l @ trim t @ r \<and> (\<forall>c\<in>set l. isWhiteSpace c) \<and> (\<forall>c\<in>set r. isWhiteSpace c)"
proof -
  let ?u = "dropWhile isWhiteSpace t"
  let ?l = "takeWhile isWhiteSpace t"
  let ?r = "rev (takeWhile isWhiteSpace (rev ?u))"
  have "rev (takeWhile isWhiteSpace (rev ?u) @ dropWhile isWhiteSpace (rev ?u)) = ?u"
    by (simp only: takeWhile_dropWhile_id rev_rev_ident)
  then have u: "?u = trim t @ ?r"
    by (simp only: rev_append trim_def)
  have "t = ?l @ ?u" by simp
  with u have "t = ?l @ trim t @ ?r" by simp
  moreover have "\<forall>c\<in>set ?l. isWhiteSpace c"
    by (auto dest: set_takeWhileD)
  moreover have "\<forall>c\<in>set ?r. isWhiteSpace c"
    by (auto dest: set_takeWhileD)
  ultimately show ?thesis by blast
qed

lemma trim_ends:
  "trim t = [] \<or> (\<not> isWhiteSpace (hd (trim t)) \<and> \<not> isWhiteSpace (last (trim t)))"
proof (cases "trim t = []")
  case True
  then show ?thesis by simp
next
  case False
  let ?u = "dropWhile isWhiteSpace t"
  let ?v = "dropWhile isWhiteSpace (rev ?u)"
  from False have v: "?v \<noteq> []" by (simp only: trim_def rev_is_Nil_conv not_False_eq_True)
  then have hv: "\<not> isWhiteSpace (hd ?v)" by (rule hd_dropWhile)
  from v have "last (trim t) = hd ?v" by (simp only: trim_def last_rev)
  with hv have l: "\<not> isWhiteSpace (last (trim t))" by simp
  have u: "?u \<noteq> []"
  proof
    assume a: "?u = []"
    have "?v = []" unfolding a by simp
    with v show False by (rule notE)
  qed
  then have hu: "\<not> isWhiteSpace (hd ?u)" by (rule hd_dropWhile)
  have "takeWhile isWhiteSpace (rev ?u) @ ?v = rev ?u"
    by (rule takeWhile_dropWhile_id)
  then have "last (rev ?u) = last (takeWhile isWhiteSpace (rev ?u) @ ?v)" by simp
  also from v have "\<dots> = last ?v" by (rule last_appendR)
  finally have "last (rev ?u) = last ?v" .
  with u have "hd ?u = last ?v" by (simp only: last_rev)
  moreover from v have "hd (trim t) = last ?v" by (simp only: trim_def hd_rev)
  ultimately have "\<not> isWhiteSpace (hd (trim t))" using hu by simp
  with l show ?thesis by simp
qed

lemma stopEach_map: "stopEach h xs = map (\<lambda>i. SourceStop i (stopThrows h i)) xs"
  by (induction xs) (auto split: option.splits)

lemma startTimes_append: "startTimes (xs @ ys) = startTimes xs @ startTimes ys"
  by (induction xs rule: startTimes.induct) simp_all

section \<open>The claims\<close>

subsection \<open>C2: the script filter\<close>

text \<open>
  C2. For every string, \<open>filterHallucinations\<close> removes every code unit outside the
  7-bit range and trims surrounding whitespace: every code unit of the result is at most
  0x7F; the result is what is left of the 7-bit code units of the input, in order, once a
  run of whitespace is taken off each end; and the result neither begins nor ends with
  whitespace. In particular the Devanagari example yields "Hello" and three blanks
  yield the empty string.
\<close>

theorem filterHallucinations_spec:
  "(\<forall>c\<in>set (filterHallucinations t). c \<le> 0x7F)
   \<and> (\<exists>l r. filter (\<lambda>c. c \<le> 0x7F) t = l @ filterHallucinations t @ r
          \<and> (\<forall>c\<in>set l. isWhiteSpace c) \<and> (\<forall>c\<in>set r. isWhiteSpace c))
   \<and> (filterHallucinations t = [] \<or>
        (\<not> isWhiteSpace (hd (filterHallucinations t)) \<and>
         \<not> isWhiteSpace (last (filterHallucinations t))))
   \<and> filterHallucinations helloMarathi = js ''Hello''
   \<and> filterHallucinations (js ''   '') = js ''''"
proof -
  let ?a = "filter (\<lambda>c. \<not> nonAscii c) t"
  have fa: "?a = filter (\<lambda>c. c \<le> 0x7F) t" by (simp add: nonAscii_def)
  obtain l r where d: "?a = l @ trim ?a @ r" "\<forall>c\<in>set l. isWhiteSpace c"
      "\<forall>c\<in>set r. isWhiteSpace c"
    using trim_decompose [of ?a] by blast
  have "set (trim ?a) \<subseteq> set ?a"
  proof -
    have "set (l @ trim ?a @ r) = set ?a" using d(1) by simp
    then show ?thesis by auto
  qed
  then have 1: "\<forall>c\<in>set (filterHallucinations t). c \<le> 0x7F"
    by (auto simp: filterHallucinations_def nonAscii_def)
  have 2: "\<exists>l r. filter (\<lambda>c. c \<le> 0x7F) t = l @ filterHallucinations t @ r
          \<and> (\<forall>c\<in>set l. isWhiteSpace c) \<and> (\<forall>c\<in>set r. isWhiteSpace c)"
    using d fa unfolding filterHallucinations_def by metis
  have 3: "filterHallucinations t = [] \<or>
        (\<not> isWhiteSpace (hd (filterHallucinations t)) \<and>
         \<not> isWhiteSpace (last (filterHallucinations t)))"
    unfolding filterHallucinations_def by (rule trim_ends)
  have 4: "filterHallucinations helloMarathi = js ''Hello''"
    by (simp add: filterHallucinations_def helloMarathi_def js_def trim_def nonAscii_def
        isWhiteSpace_def)
  have 5: "filterHallucinations (js ''   '') = js ''''"
    by (simp add: filterHallucinations_def js_def trim_def nonAscii_def isWhiteSpace_def)
  from 1 2 3 4 5 show ?thesis by blast
qed

theorem filterHallucinations_spec_witness:
  "filterHallucinations (js '' ok '' @ [0x906]) = js ''ok''
   \<and> filter (\<lambda>c. c \<le> 0x7F) (js '' ok '' @ [0x906])
       = js '' '' @ filterHallucinations (js '' ok '' @ [0x906]) @ js '' ''"
  using filterHallucinations_spec [of "js '' ok '' @ [0x906]"]
  by (simp add: filterHallucinations_def js_def trim_def nonAscii_def isWhiteSpace_def)

subsection \<open>C10: blank text\<close>

text \<open>
  C10. \<open>handleTextEnter\<close> on a text whose trim is empty does nothing at all: the state
  is returned as it was, so no entry is appended, the thinking flag is not set, and the
  trace shows no request.
\<close>

theorem handleTextEnter_blank:
  "trim text = [] \<Longrightarrow> handleTextEnter h outcome text s = s"
  by (simp add: handleTextEnter_def)

theorem handleTextEnter_blank_witness:
  "trim (js ''  '') = [] \<and>
   handleTextEnter host0 (Reply (Some (js ''hi''))) (js ''  '') (initialState []) = initialState []"
proof -
  have t: "trim (js ''  '') = []" by (simp add: trim_def js_def isWhiteSpace_def)
  from t handleTextEnter_blank [OF t] show ?thesis by simp
qed

subsection \<open>C1: a failed request\<close>

text \<open>
  C1, as the code has it. When \<open>sendMessage\<close> fails, the failure is logged to the
  console and goes no further, the thinking flag ends cleared, and no model entry is
  appended; the user's entry, appended before the request was issued, stays in the log.
\<close>

theorem sendText_failure:
  assumes "trim text \<noteq> []"
  shows "\<not> isThinking (handleTextEnter h (RequestFails e) text s)
    \<and> transcriptions (handleTextEnter h (RequestFails e) text s) =
        transcriptions s @ [\<lparr>entry_id = mathRandom h 0, entry_role = User, entry_text = text,
                              entry_timestamp = dateNow h 0\<rparr>]
    \<and> trace (handleTextEnter h (RequestFails e) text s) =
        trace s @ [SendMessage (map (\<lambda>t. (entry_role t, entry_text t)) (transcriptions s)) text,
                   ConsoleError e]"
  using assms by (simp add: handleTextEnter_def textEnterBegin_def textEnterSettle_def Let_def)

theorem sendText_failure_witness:
  "trim (js ''hi'') \<noteq> []
   \<and> \<not> isThinking (handleTextEnter host0 (RequestFails ''network'') (js ''hi'') (initialState []))
   \<and> map entry_text
        (transcriptions (handleTextEnter host0 (RequestFails ''network'') (js ''hi'') (initialState [])))
       = [js ''hi'']"
proof -
  have t: "trim (js ''hi'') \<noteq> []" by (simp add: trim_def js_def isWhiteSpace_def)
  from t sendText_failure [OF t, of host0 "''network''" "initialState []"] show ?thesis
    by (simp add: initialState_def)
qed

text \<open>As stated, with no entry appended for the call, the claim fails: the log has grown.\<close>

theorem sendText_failure_counterexample:
  "transcriptions (handleTextEnter host0 (RequestFails ''network'') (js ''hi'') (initialState []))
     \<noteq> transcriptions (initialState [])"
  by (simp add: handleTextEnter_def textEnterBegin_def textEnterSettle_def Let_def
      initialState_def trim_def js_def isWhiteSpace_def)

subsection \<open>C9: a successful request\<close>

text \<open>
  C9. When the request succeeds, the user's text is appended as typed and a model entry
  is appended with the filtered reply, whatever the filter leaves, the empty string
  included. The turn-complete flush, by contrast, appends the filtered texts of the two
  sides that are not empty.
\<close>

theorem sendText_success:
  assumes "trim text \<noteq> []"
  shows "transcriptions (handleTextEnter h (Reply r) text s) =
        transcriptions s @
          [\<lparr>entry_id = mathRandom h 0, entry_role = User, entry_text = text,
            entry_timestamp = dateNow h 0\<rparr>,
           \<lparr>entry_id = mathRandom h 1, entry_role = Model,
            entry_text = filterHallucinations (case r of Some t \<Rightarrow> t | None \<Rightarrow> []),
            entry_timestamp = dateNow h 1\<rparr>]
    \<and> \<not> isThinking (handleTextEnter h (Reply r) text s)
    \<and> (turnComplete m \<longrightarrow>
         map entry_text (drop (length (transcriptions s))
                           (transcriptions (turnCompleteBranch h m s)))
           = filter (\<lambda>t. t \<noteq> [])
               [filterHallucinations (input_text (transcriptionRef s)),
                filterHallucinations (output_text (transcriptionRef s))])"
  using assms
  by (auto simp add: handleTextEnter_def textEnterBegin_def textEnterSettle_def Let_def
      turnCompleteBranch_def flushEntries_def split: option.splits)

theorem sendText_success_witness:
  "trim (js '' hi '') \<noteq> []
   \<and> map (\<lambda>t. (entry_role t, entry_text t))
       (transcriptions
          (handleTextEnter host0 (Reply (Some [0x906, 0x908])) (js '' hi '') (initialState [])))
       = [(User, js '' hi ''), (Model, js '''')]"
proof -
  have t: "trim (js '' hi '') \<noteq> []" by (simp add: trim_def js_def isWhiteSpace_def)
  have f: "filterHallucinations [0x906, 0x908] = []"
    by (simp add: filterHallucinations_def trim_def nonAscii_def)
  from t f sendText_success [OF t, of host0 "Some [0x906, 0x908]" "initialState []"]
  show ?thesis by (simp add: initialState_def js_def)
qed

section \<open>Facts about the message handler\<close>

lemmas onmessage_defs = onmessage_def base64Audio_def audioBranch_def interruptedBranch_def
  transcriptBranch_def turnCompleteBranch_def

lemmas start_defs = startSession_def tryStart_def attempt_def newInputContext_def
  newOutputContext_def newInputAnalyser_def newOutputAnalyser_def liveConnect_def
  onopen_def




lemma transcriptions_audioBranch:
  "audioBranch h audio s = Inr s1 \<Longrightarrow> transcriptions s1 = transcriptions s"
  "audioBranch h audio s = Inl (e, s2) \<Longrightarrow> transcriptions s2 = transcriptions s"
  by (auto simp: audioBranch_def Let_def split: option.splits if_splits sum.splits)



lemma transcriptions_middle:
  "transcriptions (transcriptBranch m (interruptedBranch h m s)) = transcriptions s"
  by (simp add: transcriptBranch_def interruptedBranch_def split: option.splits)









lemma filter_examples:
  "filterHallucinations (js ''mala bhuk lagli'') = js ''mala bhuk lagli''"
  "filterHallucinations chalaJevayla = js ''chala jevayla''"
  "filterHallucinations (js ''   '') = []"
  "filterHallucinations [0x91C, 0x93E] = []"
  by (simp_all add: filterHallucinations_def chalaJevayla_def js_def trim_def nonAscii_def
      isWhiteSpace_def)

lemma examples_nonempty:
  "js ''mala bhuk lagli'' \<noteq> []" "js ''chala jevayla'' \<noteq> []"
  by (simp_all add: js_def)

lemma ready_state:
  "outputContextRef ready" "nextStartTimeRef ready = 0" "trace ready = []"
  "allocated ready = 2" "audioSourcesRef ready = []" "sessionRef ready = Some 0"
  "scriptProcessorRef ready = Some 1" "transcriptions ready = []"
  "transcriptionRef ready = \<lparr>input_text = [], output_text = []\<rparr>"
  by (simp_all add: ready_def start_defs initialState_def Let_def)


subsection \<open>C3: the flush at turn completion\<close>




section \<open>Facts about the schedule\<close>

lemma chunk_step:
  assumes "outputContextRef s"
  shows "trace (onmessage (h\<lparr>currentTime := k\<rparr>) (audioMessage d) s) =
           trace s @ [SourceStart (allocated s) (max (nextStartTimeRef s) k)]"
    and "nextStartTimeRef (onmessage (h\<lparr>currentTime := k\<rparr>) (audioMessage d) s) =
           max (nextStartTimeRef s) k + d"
    and "outputContextRef (onmessage (h\<lparr>currentTime := k\<rparr>) (audioMessage d) s)"
  using assms by (simp_all add: onmessage_defs audioMessage_def Let_def)

lemma playChunks_trace:
  "outputContextRef s \<Longrightarrow> \<exists>es. trace (playChunks h cs s) = trace s @ es"
proof (induction cs arbitrary: s)
  case Nil
  then show ?case by simp
next
  case (Cons c cs)
  obtain k d where c: "c = (k, d)" by (cases c)
  let ?s1 = "onmessage (h\<lparr>currentTime := k\<rparr>) (audioMessage d) s"
  from Cons.prems have "outputContextRef ?s1" by (rule chunk_step(3))
  then obtain es where "trace (playChunks h cs ?s1) = trace ?s1 @ es"
    using Cons.IH by blast
  with chunk_step(1) [OF Cons.prems] c show ?case by simp
qed

lemma startTimes_playChunks:
  assumes "outputContextRef s"
  shows "startTimes (trace (playChunks h cs s)) = startTimes (trace s) @ scheduled h cs s"
proof -
  obtain es where "trace (playChunks h cs s) = trace s @ es"
    using playChunks_trace [OF assms] by blast
  then show ?thesis by (simp add: scheduled_def startTimes_append)
qed

lemma scheduled_Nil: "scheduled h [] s = []"
  by (simp add: scheduled_def)

lemma scheduled_Cons:
  assumes "outputContextRef s"
  shows "scheduled h ((k, d) # cs) s =
           max (nextStartTimeRef s) k #
             scheduled h cs (onmessage (h\<lparr>currentTime := k\<rparr>) (audioMessage d) s)"
proof -
  let ?s1 = "onmessage (h\<lparr>currentTime := k\<rparr>) (audioMessage d) s"
  have o: "outputContextRef ?s1" using assms by (rule chunk_step(3))
  have p: "startTimes (trace (playChunks h cs ?s1)) =
             startTimes (trace s) @ (max (nextStartTimeRef s) k # scheduled h cs ?s1)"
    by (simp add: startTimes_playChunks [OF o] chunk_step(1) [OF assms] startTimes_append)
  have "scheduled h ((k, d) # cs) s =
          drop (length (startTimes (trace s))) (startTimes (trace (playChunks h cs ?s1)))"
    by (simp add: scheduled_def)
  also have "\<dots> = max (nextStartTimeRef s) k # scheduled h cs ?s1"
    by (simp only: p append_eq_conv_conj drop_append length_append) simp
  finally show ?thesis .
qed


lemma scheduled_length: "outputContextRef s \<Longrightarrow> length (scheduled h cs s) = length cs"
proof (induction cs arbitrary: s)
  case Nil
  then show ?case by (simp add: scheduled_Nil)
next
  case (Cons c cs)
  obtain k d where c: "c = (k, d)" by (cases c)
  from Cons.prems
  have "outputContextRef (onmessage (h\<lparr>currentTime := k\<rparr>) (audioMessage d) s)"
    by (rule chunk_step(3))
  then show ?case using Cons.IH c by (simp add: scheduled_Cons [OF Cons.prems])
qed

lemma scheduled_first:
  "outputContextRef s \<Longrightarrow> cs \<noteq> [] \<Longrightarrow>
     scheduled h cs s ! 0 = max (nextStartTimeRef s) (fst (cs ! 0))"
  by (cases cs) (auto simp: scheduled_Cons)

lemma scheduled_next:
  "outputContextRef s \<Longrightarrow> Suc i < length cs \<Longrightarrow>
     scheduled h cs s ! Suc i = max (scheduled h cs s ! i + snd (cs ! i)) (fst (cs ! Suc i))"
proof (induction cs arbitrary: s i)
  case Nil
  then show ?case by simp
next
  case (Cons c cs)
  obtain k d where c: "c = (k, d)" by (cases c)
  let ?s1 = "onmessage (h\<lparr>currentTime := k\<rparr>) (audioMessage d) s"
  have o: "outputContextRef ?s1" using Cons.prems(1) by (rule chunk_step(3))
  have e: "scheduled h (c # cs) s = max (nextStartTimeRef s) k # scheduled h cs ?s1"
    unfolding c using Cons.prems(1) by (rule scheduled_Cons)
  show ?case
  proof (cases i)
    case 0
    with Cons.prems(2) have ne: "cs \<noteq> []" by auto
    have "scheduled h cs ?s1 ! 0 = max (nextStartTimeRef ?s1) (fst (cs ! 0))"
      using o ne by (rule scheduled_first)
    then show ?thesis
      using 0 e c by (simp add: chunk_step(2) [OF Cons.prems(1)])
  next
    case (Suc j)
    with Cons.prems(2) have "Suc j < length cs" by simp
    with o have "scheduled h cs ?s1 ! Suc j =
        max (scheduled h cs ?s1 ! j + snd (cs ! j)) (fst (cs ! Suc j))"
      by (rule Cons.IH)
    then show ?thesis using Suc e by simp
  qed
qed

lemma playChunks_cursor:
  "outputContextRef s \<Longrightarrow> cs \<noteq> [] \<Longrightarrow>
     nextStartTimeRef (playChunks h cs s) = last (scheduled h cs s) + snd (last cs)"
proof (induction cs arbitrary: s)
  case Nil
  then show ?case by simp
next
  case (Cons c cs)
  obtain k d where c: "c = (k, d)" by (cases c)
  let ?s1 = "onmessage (h\<lparr>currentTime := k\<rparr>) (audioMessage d) s"
  have o: "outputContextRef ?s1" using Cons.prems(1) by (rule chunk_step(3))
  have e: "scheduled h (c # cs) s = max (nextStartTimeRef s) k # scheduled h cs ?s1"
    unfolding c using Cons.prems(1) by (rule scheduled_Cons)
  show ?case
  proof (cases "cs = []")
    case True
    then show ?thesis using c e
      by (simp add: chunk_step(2) [OF Cons.prems(1)] scheduled_Nil)
  next
    case False
    with o have i: "nextStartTimeRef (playChunks h cs ?s1) =
        last (scheduled h cs ?s1) + snd (last cs)"
      by (rule Cons.IH)
    have "length (scheduled h cs ?s1) = length cs" using o by (rule scheduled_length)
    with False have "scheduled h cs ?s1 \<noteq> []" by auto
    then show ?thesis using False c e i by simp
  qed
qed

lemma ready_schedule: "scheduled host0 [(0, 1), (5, 1)] ready = [0, 5]"
  by (simp add: scheduled_Cons scheduled_Nil ready_state chunk_step)

lemma playing_state:
  "outputContextRef playing" "trace playing = [SourceStart 2 0]"
  "audioSourcesRef playing = [2]" "sessionRef playing = Some 0"
  "scriptProcessorRef playing = Some 1" "nextStartTimeRef playing = 1"
  by (simp_all add: playing_def onmessage_defs audioMessage_def Let_def ready_state setAdd_def)

subsection \<open>C4: the start times of a sequence of chunks\<close>

text \<open>
  C4, as the code has it. With the output context in place, \<open>N\<close> chunks handled in
  arrival order with no interruption get \<open>N\<close> start times. The first is the maximum of
  the cursor and the device clock at arrival; each later one is
  \<open>start(i+1) = max (start(i) + d(i)) (clock(i+1))\<close>, so it is at least
  \<open>start(i) + d(i)\<close>, and equal to it whenever the clock at the arrival of chunk
  \<open>i+1\<close> has not passed \<open>start(i) + d(i)\<close>. With durations that are not negative
  the start times are non-decreasing. After each chunk the cursor stands at that chunk's
  start plus its duration.
\<close>

theorem chunk_schedule:
  assumes "outputContextRef s"
  shows "length (scheduled h cs s) = length cs
    \<and> (cs \<noteq> [] \<longrightarrow> scheduled h cs s ! 0 = max (nextStartTimeRef s) (fst (cs ! 0)))
    \<and> (\<forall>i. Suc i < length cs \<longrightarrow>
          scheduled h cs s ! Suc i = max (scheduled h cs s ! i + snd (cs ! i)) (fst (cs ! Suc i))
          \<and> scheduled h cs s ! i + snd (cs ! i) \<le> scheduled h cs s ! Suc i
          \<and> (fst (cs ! Suc i) \<le> scheduled h cs s ! i + snd (cs ! i) \<longrightarrow>
               scheduled h cs s ! Suc i = scheduled h cs s ! i + snd (cs ! i)))
    \<and> ((\<forall>c\<in>set cs. 0 \<le> snd c) \<longrightarrow> sorted (scheduled h cs s))
    \<and> (cs \<noteq> [] \<longrightarrow>
          nextStartTimeRef (playChunks h cs s) = last (scheduled h cs s) + snd (last cs))"
proof -
  have len: "length (scheduled h cs s) = length cs"
    using assms by (rule scheduled_length)
  have nxt: "\<And>i. Suc i < length cs \<Longrightarrow>
      scheduled h cs s ! Suc i = max (scheduled h cs s ! i + snd (cs ! i)) (fst (cs ! Suc i))"
    using assms by (rule scheduled_next)
  have srt: "sorted (scheduled h cs s)" if nn: "\<forall>c\<in>set cs. 0 \<le> snd c"
  proof -
    have "scheduled h cs s ! i \<le> scheduled h cs s ! Suc i" if i: "Suc i < length cs" for i
    proof -
      from i have "cs ! i \<in> set cs" by simp
      with nn have "0 \<le> snd (cs ! i)" by blast
      with nxt [OF i] show ?thesis by simp
    qed
    then show ?thesis by (simp add: sorted_iff_nth_Suc len)
  qed
  show ?thesis
    using len nxt srt scheduled_first [OF assms] playChunks_cursor [OF assms]
    by (auto simp: max_def)
qed

theorem chunk_schedule_witness:
  "outputContextRef ready
   \<and> length (scheduled host0 [(0, 1), (5, 1)] ready) = 2
   \<and> scheduled host0 [(0, 1), (5, 1)] ready = [0, 5]
   \<and> nextStartTimeRef (playChunks host0 [(0, 1), (5, 1)] ready) = 6"
proof -
  have o: "outputContextRef ready" by (rule ready_state(1))
  note t = chunk_schedule [OF o, of host0 "[(0, 1), (5, 1)]"]
  from t have l: "length (scheduled host0 [(0, 1), (5, 1)] ready) = 2" by simp
  from t have "nextStartTimeRef (playChunks host0 [(0, 1), (5, 1)] ready) =
      last (scheduled host0 [(0, 1), (5, 1)] ready) + snd (last [(0, 1), (5, 1 :: real)])"
    by simp
  then have c: "nextStartTimeRef (playChunks host0 [(0, 1), (5, 1)] ready) = 6"
    by (simp add: ready_schedule)
  from o l c ready_schedule show ?thesis by simp
qed

text \<open>
  As stated, with \<open>start(i+1) = start(i) + d(i)\<close> for every sequence, the claim fails:
  a second chunk that arrives at clock 5, after the first one (started at 0, one second
  long) has ended, starts at 5 and not at 1.
\<close>

theorem chunk_schedule_counterexample:
  "scheduled host0 [(0, 1), (5, 1)] ready ! 1
     \<noteq> scheduled host0 [(0, 1), (5, 1)] ready ! 0 + snd ([(0, 1), (5, 1 :: real)] ! 0)"
  by (simp add: ready_schedule)

subsection \<open>C5: interruption\<close>




subsection \<open>C6: stopSession\<close>

text \<open>
  C6. From any state \<open>stopSession\<close> closes the session if the ref holds one,
  disconnects the script processor if the ref holds one, calls \<open>stop\<close> on every active
  source and clears the set, resets the cursor to 0, clears the speaking and thinking
  flags and leaves the status disconnected. A second call changes nothing. The
  transport's error and close callbacks are this same function, so they end in
  disconnected and not in the error state.
\<close>

theorem stopSession_teardown:
  "status (stopSession h s) = Disconnected
   \<and> sessionRef (stopSession h s) = None
   \<and> scriptProcessorRef (stopSession h s) = None
   \<and> audioSourcesRef (stopSession h s) = []
   \<and> nextStartTimeRef (stopSession h s) = 0
   \<and> \<not> isSpeaking (stopSession h s)
   \<and> \<not> isThinking (stopSession h s)
   \<and> trace (stopSession h s) =
       trace s @ (case sessionRef s of Some sid \<Rightarrow> [SessionClose sid] | None \<Rightarrow> [])
         @ (case scriptProcessorRef s of Some p \<Rightarrow> [ProcessorDisconnect p] | None \<Rightarrow> [])
         @ map (\<lambda>i. SourceStop i (stopThrows h i)) (audioSourcesRef s)
   \<and> stopSession h' (stopSession h s) = stopSession h s
   \<and> onerror h s = stopSession h s
   \<and> onclose h s = stopSession h s
   \<and> status (onerror h s) \<noteq> Error
   \<and> status (onclose h s) \<noteq> Error"
  by (simp add: stopSession_def onerror_def onclose_def Let_def stopEach_map split: option.splits)

theorem stopSession_teardown_witness:
  "status (stopSession host0 playing) = Disconnected
   \<and> trace (stopSession host0 playing) =
       [SourceStart 2 0, SessionClose 0, ProcessorDisconnect 1, SourceStop 2 None]
   \<and> stopSession hostStopFails (stopSession host0 playing) = stopSession host0 playing
   \<and> status (onerror host0 playing) = Disconnected"
  using stopSession_teardown [of host0 playing hostStopFails]
  by (simp add: playing_state host0_def)

subsection \<open>C7: a failed start\<close>

text \<open>
  C7. When a call of the start sequence fails (a device context can only fail to be
  constructed when its ref is not set yet), \<open>startSession\<close> logs the exception and ends
  with the status error; the transcript log is as it was, and no session or script
  processor has been put in its ref. Nothing else follows.
\<close>

theorem startSession_failure:
  assumes "k = NewInputContext \<longrightarrow> \<not> inputContextRef s"
    and "k = NewOutputContext \<longrightarrow> \<not> outputContextRef s"
  shows "status (startSession (Some (k, e)) s) = Error
    \<and> transcriptions (startSession (Some (k, e)) s) = transcriptions s
    \<and> trace (startSession (Some (k, e)) s) = trace s @ [ConsoleError e]
    \<and> sessionRef (startSession (Some (k, e)) s) = sessionRef s
    \<and> scriptProcessorRef (startSession (Some (k, e)) s) = scriptProcessorRef s"
  using assms by (cases k) (simp_all add: start_defs Let_def)

theorem startSession_failure_witness:
  "status (startSession (Some (GetUserMedia, ''NotAllowedError''))
             (initialState [initEntry 5000])) = Error
   \<and> transcriptions (startSession (Some (GetUserMedia, ''NotAllowedError''))
                       (initialState [initEntry 5000])) = [initEntry 5000]
   \<and> status (startSession (Some (LiveConnect, ''closed'')) (initialState [initEntry 5000]))
       = Error"
  using startSession_failure [of GetUserMedia "initialState [initEntry 5000]" "''NotAllowedError''"]
    startSession_failure [of LiveConnect "initialState [initEntry 5000]" "''closed''"]
  by (simp add: initialState_def)

subsection \<open>C8: the log only grows at its end\<close>

lemma transcriptions_startSession: "transcriptions (startSession f s) = transcriptions s"
proof (cases f)
  case None
  then show ?thesis by (simp add: start_defs Let_def)
next
  case (Some a)
  obtain k e where "a = (k, e)" by (cases a)
  with Some show ?thesis by (cases k) (simp_all add: start_defs Let_def)
qed

lemma transcriptions_stopSession: "transcriptions (stopSession h s) = transcriptions s"
  by (simp add: stopSession_def Let_def split: option.splits)

lemma transcriptions_onended: "transcriptions (onended src s) = transcriptions s"
  by (simp add: onended_def Let_def)

lemma prefix_textEnterBegin:
  "prefix (transcriptions s) (transcriptions (textEnterBegin h setup text s))"
  by (simp add: textEnterBegin_def Let_def split: option.splits)

lemma prefix_textEnterSettle:
  "prefix (transcriptions s) (transcriptions (textEnterSettle i n r s))"
  by (simp add: textEnterSettle_def Let_def split: sum.splits)

lemma prefix_handleTextEnter:
  "prefix (transcriptions s) (transcriptions (handleTextEnter h outcome text s))"
proof -
  have "prefix (transcriptions s)
      (transcriptions (textEnterSettle i n r (textEnterBegin h None text s)))" for i n r
    using prefix_textEnterBegin prefix_textEnterSettle by (rule prefix_order.trans)
  then show ?thesis
    by (simp add: handleTextEnter_def prefix_textEnterBegin split: reply_outcome.splits)
qed

lemma prefix_turnCompleteBranch:
  "prefix (transcriptions s) (transcriptions (turnCompleteBranch h m s))"
  by (simp add: turnCompleteBranch_def Let_def)

lemma prefix_onmessage: "prefix (transcriptions s) (transcriptions (onmessage h m s))"
proof (cases "base64Audio m")
  case (Inl e)
  then show ?thesis by (simp add: onmessage_def)
next
  case (Inr audio)
  show ?thesis
  proof (cases "audioBranch h audio s")
    case (Inl a)
    obtain e s2 where a: "a = (e, s2)" by (cases a)
    with Inl have "transcriptions s2 = transcriptions s"
      by (simp add: transcriptions_audioBranch(2))
    with Inl a Inr show ?thesis by (simp add: onmessage_def)
  next
    case inr: (Inr s1)
    then have "transcriptions (transcriptBranch m (interruptedBranch h m s1)) = transcriptions s"
      by (simp add: transcriptions_middle transcriptions_audioBranch(1))
    then have "prefix (transcriptions s)
        (transcriptions (turnCompleteBranch h m (transcriptBranch m (interruptedBranch h m s1))))"
      using prefix_turnCompleteBranch [of "transcriptBranch m (interruptedBranch h m s1)" h m]
      by simp
    with inr Inr show ?thesis by (simp add: onmessage_def)
  qed
qed

lemma prefix_perform: "prefix (transcriptions s) (transcriptions (perform h op s))"
  by (cases op)
    (simp_all add: transcriptions_startSession transcriptions_stopSession transcriptions_onended
      prefix_textEnterBegin prefix_textEnterSettle prefix_handleTextEnter prefix_onmessage
      onerror_def onclose_def)

lemma run_append: "run (ops @ ops') s = run ops' (run ops s)"
  by (induction ops arbitrary: s) auto

lemma prefix_run: "prefix (transcriptions s) (transcriptions (run ops s))"
proof (induction ops arbitrary: s)
  case Nil
  then show ?case by simp
next
  case (Cons a ops)
  obtain h op where a: "a = (h, op)" by (cases a)
  have "prefix (transcriptions s) (transcriptions (perform h op s))" by (rule prefix_perform)
  also have "prefix \<dots> (transcriptions (run ops (perform h op s)))" by (rule Cons.IH)
  finally show ?case using a by simp
qed

text \<open>
  C8. The transcript log is append-only under every operation: after a step (a start,
  a stop, a text entry whole or in its two halves, an inbound message, a transport error
  or close, the end of a source) the old log is a prefix of the new one; hence along any
  run the log at an earlier point is a prefix of the log at a later point, no shorter
  and with every entry unchanged in its place, and entries stand in the order in which
  they were appended.
\<close>

theorem log_append_only:
  "prefix (transcriptions s) (transcriptions (perform h op s))
   \<and> prefix (transcriptions (run ops s)) (transcriptions (run (ops @ ops') s))
   \<and> length (transcriptions (run ops s)) \<le> length (transcriptions (run (ops @ ops') s))
   \<and> (\<forall>i < length (transcriptions (run ops s)).
         transcriptions (run (ops @ ops') s) ! i = transcriptions (run ops s) ! i)"
proof -
  have p: "prefix (transcriptions (run ops s)) (transcriptions (run (ops @ ops') s))"
    unfolding run_append by (rule prefix_run)
  then obtain zs where "transcriptions (run (ops @ ops') s) = transcriptions (run ops s) @ zs"
    by (auto simp: prefix_def)
  then have "length (transcriptions (run ops s)) \<le> length (transcriptions (run (ops @ ops') s))"
    and "\<forall>i < length (transcriptions (run ops s)).
         transcriptions (run (ops @ ops') s) ! i = transcriptions (run ops s) ! i"
    by (simp_all add: nth_append)
  with p prefix_perform show ?thesis by blast
qed

lemma exampleRun_log:
  "map (\<lambda>t. (entry_role t, entry_text t)) (transcriptions (run exampleRun (initialState [])))
     = [(User, js ''hi'')]"
  "map (\<lambda>t. (entry_role t, entry_text t))
     (transcriptions (run (exampleRun @ exampleRunMore) (initialState [])))
     = [(User, js ''hi''), (User, js ''mala bhuk lagli''), (Model, js ''chala jevayla'')]"
  by (simp_all add: exampleRun_def exampleRunMore_def handleTextEnter_def textEnterBegin_def
      textEnterSettle_def start_defs onmessage_defs stopSession_def onclose_def Let_def
      initialState_def inputFragment_def outputFragment_def turnCompleteMessage_def
      emptyMessage_def fragmentText_def flushEntries_def filter_examples examples_nonempty
      trim_def isWhiteSpace_def js_def chalaJevayla_def filterHallucinations_def nonAscii_def)

theorem log_append_only_witness:
  "prefix (transcriptions (run exampleRun (initialState [])))
     (transcriptions (run (exampleRun @ exampleRunMore) (initialState [])))
   \<and> map (\<lambda>t. (entry_role t, entry_text t)) (transcriptions (run exampleRun (initialState [])))
       = [(User, js ''hi'')]
   \<and> map (\<lambda>t. (entry_role t, entry_text t))
       (transcriptions (run (exampleRun @ exampleRunMore) (initialState [])))
       = [(User, js ''hi''), (User, js ''mala bhuk lagli''), (Model, js ''chala jevayla'')]"
  using log_append_only [of "initialState []" host0 StopSession exampleRun exampleRunMore]
    exampleRun_log
  by blast

end
